theory Spec2Isabelle
  imports Main
begin

section \<open>Data model of \<^verbatim>\<open>strawberry/schema/schema.py\<close>\<close>

text \<open>
  The module defines one class, \<^verbatim>\<open>Schema\<close>. Everything else it touches is imported:
  the type-declaration helpers \<^verbatim>\<open>get_object_type\<close> and \<^verbatim>\<open>get_directive_type\<close>, the engine's
  \<^verbatim>\<open>GraphQLSchema\<close>, \<^verbatim>\<open>specified_directives\<close>, \<^verbatim>\<open>parse\<close> and \<^verbatim>\<open>subscribe\<close>, the package's own
  \<^verbatim>\<open>execute\<close> and the \<^verbatim>\<open>ExtensionsRunner\<close>. These collaborators are parameters of the model
  (two records of functions, \<open>builder\<close> and \<open>engine\<close>); the methods of \<^verbatim>\<open>Schema\<close> are
  translated statement by statement.

  Exceptions are values. \<open>KeyError\<close>, \<open>AttributeError\<close> and \<open>TypeError\<close> are the exceptions
  a statement of the module can raise by itself (a dictionary subscript, an attribute
  read, the \<^verbatim>\<open>+\<close> of two sequences).
  \<open>SchemaConfigurationError\<close> and \<open>SynchronousExecutionError\<close> are the classes named by the
  specification; no statement of the module raises or mentions them. \<open>Exception c\<close> is any
  other exception, of class \<open>c\<close>, raised inside a collaborator.
\<close>

datatype error =
    KeyError string
  | AttributeError string
  | TypeError
  | SchemaConfigurationError
  | SynchronousExecutionError
  | Exception string

text \<open>
  Modelled from the spec: the classes \<^verbatim>\<open>TypeDefinition\<close>, \<^verbatim>\<open>ScalarDefinition\<close>,
  \<^verbatim>\<open>EnumDefinition\<close> and \<^verbatim>\<open>ConcreteType\<close> are imported, their declarations are not part of
  the module. A ConcreteType "carries a definition payload that is one of: object-type
  definition, scalar definition, enum definition (a tagged union)", and a definition has a
  name. The module reads only the attribute \<^verbatim>\<open>definition\<close> of a ConcreteType; \<open>'p\<close> stands for
  everything else a definition holds.
\<close>

datatype 'p type_definition =
    TypeDefinition (def_name: string) 'p
  | ScalarDefinition (def_name: string) 'p
  | EnumDefinition (def_name: string) 'p

datatype 'p ConcreteType = ConcreteType (definition': "'p type_definition")

type_synonym 'p type_map = "string \<rightharpoonup> 'p ConcreteType"

text \<open>
  Engine-native objects. The module reads the attribute \<^verbatim>\<open>name\<close> of the object type returned
  for the query root (line 53); a directive descriptor has a name as well. \<open>'g\<close> stands for
  the rest of the engine object.
\<close>

datatype 'g GraphQLObjectType = GraphQLObjectType (name: string) 'g

datatype 'g GraphQLDirective = GraphQLDirective (directive_name: string) 'g

text \<open>
  \<^verbatim>\<open>specified_directives\<close> is a constant of the engine, a sequence whose class the module
  does not fix. Line 49 adds a list to it: on a list (or a subclass of it) \<^verbatim>\<open>+\<close> gives the
  concatenation, on a tuple it raises \<^verbatim>\<open>TypeError\<close>.
\<close>

datatype 'a sequence = PyList (elements: "'a list") | PyTuple (elements: "'a list")

definition add_list :: "'a sequence \<Rightarrow> 'a list \<Rightarrow> error + 'a list" where
  "add_list xs ys = (case xs of PyList l \<Rightarrow> Inr (l @ ys) | PyTuple l \<Rightarrow> Inl TypeError)"

text \<open>
  The engine's result object (\<^verbatim>\<open>GraphQLExecutionResult\<close>), of which the module reads
  \<^verbatim>\<open>data\<close> and \<^verbatim>\<open>errors\<close>, both optional.
\<close>

datatype 'v GraphQLExecutionResult =
  GraphQLExecutionResult (gql_data: "'v option") (gql_errors: "'v list option")

text \<open>
  What \<^verbatim>\<open>execute(...)\<close> returns: a completed result, or an awaitable of one. An awaitable
  is the rest of the execution, suspended: awaiting it runs it on the extensions runner
  as it then is and either never completes (\<open>None\<close>), or raises, or yields the result,
  leaving the runner in a new state.
\<close>

datatype ('v, 'r) engine_value =
    Completed "'v GraphQLExecutionResult"
  | Awaitable "'r \<Rightarrow> ((error + 'v GraphQLExecutionResult) \<times> 'r) option"

text \<open>The package's \<^verbatim>\<open>ExecutionResult\<close>, built with the three keywords of lines 86-90.\<close>

record 'v ExecutionResult =
  data :: "'v option"
  errors :: "'v list option"
  extensions :: "string \<rightharpoonup> 'v"

text \<open>
  The collaborators of \<^verbatim>\<open>Schema.__init__\<close>. Each of them is a call into code outside the
  module and may raise. The registry is one dictionary, shared by reference: the two
  type-declaration helpers receive it, and the engine's \<^verbatim>\<open>GraphQLSchema\<close> reaches it through
  the objects the helpers built (types whose fields are resolved while the schema is
  assembled), so all three may add entries to it; the model hands the registry to each
  and takes the new one back. \<^verbatim>\<open>get_object_type\<close> receives whatever object the caller
  passed, \<^verbatim>\<open>None\<close> included. \<^verbatim>\<open>GraphQLSchema\<close> takes the keywords \<^verbatim>\<open>query\<close>,
  \<^verbatim>\<open>mutation\<close>, \<^verbatim>\<open>subscription\<close>, \<^verbatim>\<open>directives\<close>, \<^verbatim>\<open>types\<close> in this order.
  \<^verbatim>\<open>DirectivesMiddleware\<close> and \<^verbatim>\<open>ExtensionsRunner\<close> are the constructors of two classes of
  the package; \<open>'m\<close> is the type of middleware objects, \<open>'r\<close> of runners.
\<close>

record ('t, 'd, 'x, 'p, 'g, 'h, 'm, 'r) builder =
  get_object_type ::
    "'t option \<Rightarrow> 'p type_map \<Rightarrow> error + ('g GraphQLObjectType \<times> 'p type_map)"
  get_directive_type ::
    "'d \<Rightarrow> 'p type_map \<Rightarrow> error + ('g GraphQLDirective \<times> 'p type_map)"
  DirectivesMiddleware :: "'d list \<Rightarrow> error + 'm"
  specified_directives :: "'g GraphQLDirective sequence"
  GraphQLSchema ::
    "'g GraphQLObjectType \<Rightarrow> 'g GraphQLObjectType option \<Rightarrow> 'g GraphQLObjectType option
      \<Rightarrow> 'g GraphQLDirective list \<Rightarrow> 'g GraphQLObjectType list \<Rightarrow> 'p type_map
      \<Rightarrow> error + ('h \<times> 'p type_map)"
  ExtensionsRunner :: "'x list \<Rightarrow> error + 'r"

text \<open>
  The collaborators of the three entry points. \<^verbatim>\<open>execute\<close> takes, in the order of the call
  of lines 72-81: the schema handle, the query text, \<^verbatim>\<open>variable_values\<close>, \<^verbatim>\<open>root_value\<close>,
  \<^verbatim>\<open>context_value\<close>, \<^verbatim>\<open>operation_name\<close>, \<^verbatim>\<open>additional_middlewares\<close> and the extensions
  runner, which it may change. \<^verbatim>\<open>subscribe\<close> takes the handle, the parsed document,
  \<^verbatim>\<open>root_value\<close>, \<^verbatim>\<open>context_value\<close>, \<^verbatim>\<open>variable_values\<close>, \<^verbatim>\<open>operation_name\<close> (lines
  125-132); it is a coroutine function, so awaiting its result may never complete (\<open>None\<close>).
  \<^verbatim>\<open>get_extensions_results\<close> reads the runner ("a pure read after the request completes").
  The engine is handed the object's own middleware list; it is taken to read it, not to
  change it. After construction the registry is not written any more ("never mutated
  after construction completes").
\<close>

record ('h, 'v, 'm, 'r, 'a, 's) engine =
  execute ::
    "'h \<Rightarrow> string \<Rightarrow> 'v option \<Rightarrow> 'v option \<Rightarrow> 'v option \<Rightarrow> string option
      \<Rightarrow> 'm list \<Rightarrow> 'r \<Rightarrow> (error + ('v, 'r) engine_value) \<times> 'r"
  get_extensions_results :: "'r \<Rightarrow> (string \<rightharpoonup> 'v)"
  parse :: "string \<Rightarrow> error + 'a"
  subscribe ::
    "'h \<Rightarrow> 'a \<Rightarrow> 'v option \<Rightarrow> 'v option \<Rightarrow> 'v option \<Rightarrow> string option
      \<Rightarrow> (error + 's) option"

text \<open>
  The attributes of a \<^verbatim>\<open>Schema\<close> object. \<open>gql_schema\<close> is \<^verbatim>\<open>self._schema\<close>. The extensions
  runner is the one attribute whose state a request can change.
\<close>

record ('p, 'm, 'h, 'r) Schema =
  type_map :: "'p type_map"
  middleware :: "'m list"
  gql_schema :: 'h
  query :: "'p ConcreteType"
  extensions_runner :: 'r

section \<open>\<^verbatim>\<open>Schema.__init__\<close>\<close>

text \<open>\<^verbatim>\<open>get_object_type(x, self.type_map) if x else None\<close> (lines 34-37).\<close>

definition get_optional_object_type ::
  "('t, 'd, 'x, 'p, 'g, 'h, 'm, 'r) builder \<Rightarrow> 't option \<Rightarrow> 'p type_map
    \<Rightarrow> error + ('g GraphQLObjectType option \<times> 'p type_map)" where
  "get_optional_object_type B x tm =
     (case x of
        None \<Rightarrow> Inr (None, tm)
      | Some t \<Rightarrow>
          (case get_object_type B (Some t) tm of
             Inl e \<Rightarrow> Inl e
           | Inr (g, tm') \<Rightarrow> Inr (Some g, tm')))"

text \<open>
  \<^verbatim>\<open>[get_directive_type(directive, self.type_map) for directive in directives]\<close> (lines
  41-43): left to right, each call seeing the registry the previous one left.
\<close>

fun get_directive_types ::
  "('t, 'd, 'x, 'p, 'g, 'h, 'm, 'r) builder \<Rightarrow> 'd list \<Rightarrow> 'p type_map
    \<Rightarrow> error + ('g GraphQLDirective list \<times> 'p type_map)" where
  "get_directive_types B [] tm = Inr ([], tm)"
| "get_directive_types B (d # ds) tm =
     (case get_directive_type B d tm of
        Inl e \<Rightarrow> Inl e
      | Inr (g, tm') \<Rightarrow>
          (case get_directive_types B ds tm' of
             Inl e \<Rightarrow> Inl e
           | Inr (gs, tm'') \<Rightarrow> Inr (g # gs, tm'')))"

text \<open>\<^verbatim>\<open>[get_object_type(type, self.type_map) for type in types]\<close> (line 50).\<close>

fun get_object_types ::
  "('t, 'd, 'x, 'p, 'g, 'h, 'm, 'r) builder \<Rightarrow> 't list \<Rightarrow> 'p type_map
    \<Rightarrow> error + ('g GraphQLObjectType list \<times> 'p type_map)" where
  "get_object_types B [] tm = Inr ([], tm)"
| "get_object_types B (t # ts) tm =
     (case get_object_type B (Some t) tm of
        Inl e \<Rightarrow> Inl e
      | Inr (g, tm') \<Rightarrow>
          (case get_object_types B ts tm' of
             Inl e \<Rightarrow> Inl e
           | Inr (gs, tm'') \<Rightarrow> Inr (g # gs, tm'')))"

text \<open>
  The constructor, lines 20-54, in the order of evaluation. The arguments are \<^verbatim>\<open>query\<close>,
  \<^verbatim>\<open>mutation\<close>, \<^verbatim>\<open>subscription\<close>, \<^verbatim>\<open>directives\<close>, \<^verbatim>\<open>types\<close>, \<^verbatim>\<open>extensions\<close>. The query
  argument goes to \<^verbatim>\<open>get_object_type\<close> as it is; the other two roots only when they are
  truthy. The keywords of the \<^verbatim>\<open>GraphQLSchema\<close> call are evaluated left to right, so the
  \<^verbatim>\<open>+\<close> of line 49 comes before the comprehension of line 50. An exception leaves the
  constructor, and no object exists then. The subscript of line 53 reads the registry as
  the assembly left it and raises \<^verbatim>\<open>KeyError\<close> when it has no entry under the query type's
  name. The object keeps the one registry (\<^verbatim>\<open>self.type_map\<close>).
\<close>

definition Schema_init ::
  "('t, 'd, 'x, 'p, 'g, 'h, 'm, 'r) builder \<Rightarrow> 't option \<Rightarrow> 't option \<Rightarrow> 't option
    \<Rightarrow> 'd list \<Rightarrow> 't list \<Rightarrow> 'x list \<Rightarrow> error + ('p, 'm, 'h, 'r) Schema" where
  "Schema_init B qry mut sub dirs tys exts =
     (case get_object_type B qry Map.empty of
        Inl e \<Rightarrow> Inl e
      | Inr (query_type, tm1) \<Rightarrow>
     (case get_optional_object_type B mut tm1 of
        Inl e \<Rightarrow> Inl e
      | Inr (mutation_type, tm2) \<Rightarrow>
     (case get_optional_object_type B sub tm2 of
        Inl e \<Rightarrow> Inl e
      | Inr (subscription_type, tm3) \<Rightarrow>
     (case DirectivesMiddleware B dirs of
        Inl e \<Rightarrow> Inl e
      | Inr directives_middleware \<Rightarrow>
     (case get_directive_types B dirs tm3 of
        Inl e \<Rightarrow> Inl e
      | Inr (gdirs, tm4) \<Rightarrow>
     (case add_list (specified_directives B) gdirs of
        Inl e \<Rightarrow> Inl e
      | Inr all_directives \<Rightarrow>
     (case get_object_types B tys tm4 of
        Inl e \<Rightarrow> Inl e
      | Inr (gtypes, tm5) \<Rightarrow>
     (case GraphQLSchema B query_type mutation_type subscription_type all_directives
             gtypes tm5 of
        Inl e \<Rightarrow> Inl e
      | Inr (h, tm6) \<Rightarrow>
     (case tm6 (name query_type) of
        None \<Rightarrow> Inl (KeyError (name query_type))
      | Some ct \<Rightarrow>
     (case ExtensionsRunner B exts of
        Inl e \<Rightarrow> Inl e
      | Inr runner \<Rightarrow>
          Inr \<lparr>type_map = tm6,
               middleware = [directives_middleware],
               gql_schema = h,
               query = ct,
               extensions_runner = runner\<rparr>))))))))))"

section \<open>The methods\<close>

text \<open>\<^verbatim>\<open>get_type_by_name\<close>, lines 56-62.\<close>

definition get_type_by_name ::
  "('p, 'm, 'h, 'r) Schema \<Rightarrow> string \<Rightarrow> 'p type_definition option" where
  "get_type_by_name self nm =
     (if type_map self nm \<noteq> None then Some (definition' (the (type_map self nm)))
      else None)"

text \<open>
  \<^verbatim>\<open>execute_sync\<close>, lines 92-115. The method returns its outcome and leaves the object with
  the runner the engine left. It has no \<^verbatim>\<open>isawaitable\<close> test: when the engine returned an
  awaitable, the first keyword of line 112, \<^verbatim>\<open>result.data\<close>, is an attribute an awaitable
  does not have, and the read raises \<^verbatim>\<open>AttributeError\<close>; the awaitable is dropped unawaited.
\<close>

definition Schema_execute_sync ::
  "('h, 'v, 'm, 'r, 'a, 's) engine \<Rightarrow> ('p, 'm, 'h, 'r) Schema \<Rightarrow> string \<Rightarrow> 'v option
    \<Rightarrow> 'v option \<Rightarrow> 'v option \<Rightarrow> string option
    \<Rightarrow> (error + 'v ExecutionResult) \<times> ('p, 'm, 'h, 'r) Schema" where
  "Schema_execute_sync E self q variable_values context_value root_value operation_name =
     (case execute E (gql_schema self) q variable_values root_value context_value
             operation_name (middleware self) (extensions_runner self) of
        (Inl e, r) \<Rightarrow> (Inl e, self\<lparr>extensions_runner := r\<rparr>)
      | (Inr (Awaitable k), r) \<Rightarrow>
          (Inl (AttributeError ''data''), self\<lparr>extensions_runner := r\<rparr>)
      | (Inr (Completed result), r) \<Rightarrow>
          (Inr \<lparr>data = gql_data result,
                errors = gql_errors result,
                extensions = get_extensions_results E r\<rparr>,
           self\<lparr>extensions_runner := r\<rparr>))"

text \<open>
  \<^verbatim>\<open>execute\<close>, lines 64-90: the same call, then \<^verbatim>\<open>await\<close> when the result is awaitable.
  \<open>None\<close> is a call that never returns because the awaitable never completes.
\<close>

definition Schema_execute ::
  "('h, 'v, 'm, 'r, 'a, 's) engine \<Rightarrow> ('p, 'm, 'h, 'r) Schema \<Rightarrow> string \<Rightarrow> 'v option
    \<Rightarrow> 'v option \<Rightarrow> 'v option \<Rightarrow> string option
    \<Rightarrow> ((error + 'v ExecutionResult) \<times> ('p, 'm, 'h, 'r) Schema) option" where
  "Schema_execute E self q variable_values context_value root_value operation_name =
     (case execute E (gql_schema self) q variable_values root_value context_value
             operation_name (middleware self) (extensions_runner self) of
        (Inl e, r) \<Rightarrow> Some (Inl e, self\<lparr>extensions_runner := r\<rparr>)
      | (Inr (Awaitable k), r) \<Rightarrow>
          (case k r of
             None \<Rightarrow> None
           | Some (Inl e, r') \<Rightarrow> Some (Inl e, self\<lparr>extensions_runner := r'\<rparr>)
           | Some (Inr result, r') \<Rightarrow>
               Some (Inr \<lparr>data = gql_data result,
                          errors = gql_errors result,
                          extensions = get_extensions_results E r'\<rparr>,
                     self\<lparr>extensions_runner := r'\<rparr>))
      | (Inr (Completed result), r) \<Rightarrow>
          Some (Inr \<lparr>data = gql_data result,
                     errors = gql_errors result,
                     extensions = get_extensions_results E r\<rparr>,
                self\<lparr>extensions_runner := r\<rparr>))"

text \<open>
  \<^verbatim>\<open>subscribe\<close>, lines 117-132. The arguments of the call are evaluated first, so
  \<^verbatim>\<open>parse(query)\<close> runs, and may raise, before the engine's \<^verbatim>\<open>subscribe\<close> is entered. The
  call receives neither \<^verbatim>\<open>self.middleware\<close> nor \<^verbatim>\<open>self.extensions_runner\<close>.
\<close>

definition Schema_subscribe ::
  "('h, 'v, 'm, 'r, 'a, 's) engine \<Rightarrow> ('p, 'm, 'h, 'r) Schema \<Rightarrow> string \<Rightarrow> 'v option
    \<Rightarrow> 'v option \<Rightarrow> 'v option \<Rightarrow> string option \<Rightarrow> (error + 's) option" where
  "Schema_subscribe E self q variable_values context_value root_value operation_name =
     (case parse E q of
        Inl e \<Rightarrow> Some (Inl e)
      | Inr document \<Rightarrow>
          subscribe E (gql_schema self) document root_value context_value variable_values
            operation_name)"

section \<open>Predicates the properties are stated with\<close>

text \<open>
  The registry invariant of the data model: every entry is stored under the name of its
  own definition.
\<close>

definition keyed_by_name :: "'p type_map \<Rightarrow> bool" where
  "keyed_by_name tm \<longleftrightarrow> (\<forall>n ct. tm n = Some ct \<longrightarrow> def_name (definition' ct) = n)"

text \<open>
  Collaborators that keep the invariant: given a registry that satisfies it, each of the
  three that can write the registry returns one that does.
\<close>

definition registers_by_name :: "('t, 'd, 'x, 'p, 'g, 'h, 'm, 'r) builder \<Rightarrow> bool" where
  "registers_by_name B \<longleftrightarrow>
     (\<forall>x tm g tm'. keyed_by_name tm \<longrightarrow> get_object_type B x tm = Inr (g, tm')
        \<longrightarrow> keyed_by_name tm') \<and>
     (\<forall>d tm g tm'. keyed_by_name tm \<longrightarrow> get_directive_type B d tm = Inr (g, tm')
        \<longrightarrow> keyed_by_name tm') \<and>
     (\<forall>qt mt st ds ts tm h tm'. keyed_by_name tm
        \<longrightarrow> GraphQLSchema B qt mt st ds ts tm = Inr (h, tm') \<longrightarrow> keyed_by_name tm')"

text \<open>
  The states of one \<^verbatim>\<open>Schema\<close> object over its life: as constructed, and after each
  \<^verbatim>\<open>execute_sync\<close> or \<^verbatim>\<open>execute\<close> call that returned or raised. \<^verbatim>\<open>subscribe\<close> and
  \<^verbatim>\<open>get_type_by_name\<close> leave the object as it is.
\<close>

inductive reachable ::
  "('h, 'v, 'm, 'r, 'a, 's) engine \<Rightarrow> ('p, 'm, 'h, 'r) Schema \<Rightarrow> ('p, 'm, 'h, 'r) Schema \<Rightarrow> bool"
  for E s0 where
  constructed: "reachable E s0 s0"
| after_execute_sync:
    "reachable E s0 s \<Longrightarrow> Schema_execute_sync E s q v c r opn = (out, s') \<Longrightarrow> reachable E s0 s'"
| after_execute:
    "reachable E s0 s \<Longrightarrow> Schema_execute E s q v c r opn = Some (out, s') \<Longrightarrow> reachable E s0 s'"

text \<open>
  The extensions mapping a request reads once the engine's work is complete: the
  runner's results after the call, or after the awaitable when there is one.
\<close>

definition snapshot_after ::
  "('h, 'v, 'm, 'r, 'a, 's) engine \<Rightarrow> (error + ('v, 'r) engine_value) \<times> 'r
     \<Rightarrow> (string \<rightharpoonup> 'v) option" where
  "snapshot_after E outcome =
     (case outcome of
        (Inl e, r) \<Rightarrow> None
      | (Inr (Completed result), r) \<Rightarrow> Some (get_extensions_results E r)
      | (Inr (Awaitable k), r) \<Rightarrow>
          (case k r of
             Some (Inr result, r') \<Rightarrow> Some (get_extensions_results E r')
           | _ \<Rightarrow> None))"

text \<open>
  An engine whose extension results are per request: the mapping read after a call does
  not depend on the state in which the call found the runner.
\<close>

definition request_scoped :: "('h, 'v, 'm, 'r, 'a, 's) engine \<Rightarrow> bool" where
  "request_scoped E \<longleftrightarrow>
     (\<forall>h q v r c opn ms rn rn' x y.
        snapshot_after E (execute E h q v r c opn ms rn) = Some x \<longrightarrow>
        snapshot_after E (execute E h q v r c opn ms rn') = Some y \<longrightarrow> x = y)"

text \<open>
  An engine that reports the first middleware it is handed: its \<^verbatim>\<open>execute\<close> raises \<open>seen\<close>
  when the list it receives starts with \<open>dm\<close>, and \<open>other\<close> when the list is empty or
  starts with something else.
\<close>

definition reporting_engine ::
  "'m \<Rightarrow> error \<Rightarrow> error \<Rightarrow> ('h, 'v, 'm, 'r, 'a, 's) engine \<Rightarrow> ('h, 'v, 'm, 'r, 'a, 's) engine"
  where
  "reporting_engine dm seen other E =
     E\<lparr>execute :=
         (\<lambda>h q v r c opn ms rn.
            (Inl (if ms \<noteq> [] \<and> hd ms = dm then seen else other), rn))\<rparr>"

section \<open>The type-declaration helpers, from the specification\<close>

text \<open>
  Modelled from the spec: \<^verbatim>\<open>get_object_type\<close> and \<^verbatim>\<open>get_directive_type\<close> are imported
  from \<^verbatim>\<open>.types\<close>; their code is not part of the module. The specification has: "given a
  host type declaration, produce a ConcreteType with a definition tagged
  object/scalar/enum, registering nested/reachable types as a side effect into a supplied
  registry"; "every reachable type (including nested field types) is registered into the
  Type Registry exactly once, keyed by name; re-registration of a type under a name
  already present with a different definition is a construction-time failure
  (DuplicateTypeNameError)"; "absence of a query root is a construction-time failure
  (SchemaConfigurationError)"; "Directives passed in are converted to engine-native
  directive descriptors". A host declaration is its definition and the declarations
  reachable from it; a directive declaration is its name and the declarations of its
  argument types.
\<close>

datatype 'p type_declaration =
  TypeDeclaration (declared: "'p type_definition") (nested: "'p type_declaration list")

datatype 'p directive_declaration =
  DirectiveDeclaration (declared_name: string) (argument_types: "'p type_declaration list")

fun register :: "'p type_declaration \<Rightarrow> 'p type_map \<Rightarrow> error + 'p type_map"
  and register_all :: "'p type_declaration list \<Rightarrow> 'p type_map \<Rightarrow> error + 'p type_map" where
  "register (TypeDeclaration d ds) tm =
     (case tm (def_name d) of
        Some ct \<Rightarrow>
          (if definition' ct = d then Inr tm else Inl (Exception ''DuplicateTypeNameError''))
      | None \<Rightarrow> register_all ds (tm(def_name d \<mapsto> ConcreteType d)))"
| "register_all [] tm = Inr tm"
| "register_all (x # xs) tm =
     (case register x tm of Inl e \<Rightarrow> Inl e | Inr tm' \<Rightarrow> register_all xs tm')"

definition spec_get_object_type ::
  "'p type_declaration option \<Rightarrow> 'p type_map \<Rightarrow> error + (unit GraphQLObjectType \<times> 'p type_map)"
  where
  "spec_get_object_type x tm =
     (case x of
        None \<Rightarrow> Inl SchemaConfigurationError
      | Some decl \<Rightarrow>
          (case register decl tm of
             Inl e \<Rightarrow> Inl e
           | Inr tm' \<Rightarrow> Inr (GraphQLObjectType (def_name (declared decl)) (), tm')))"

definition spec_get_directive_type ::
  "'p directive_declaration \<Rightarrow> 'p type_map \<Rightarrow> error + (unit GraphQLDirective \<times> 'p type_map)"
  where
  "spec_get_directive_type d tm =
     (case register_all (argument_types d) tm of
        Inl e \<Rightarrow> Inl e
      | Inr tm' \<Rightarrow> Inr (GraphQLDirective (declared_name d) (), tm'))"

text \<open>
  Modelled from the spec: a builder whose helpers are the two above and whose schema
  assembly is "a schema-assembly primitive accepting root object types, directive
  descriptors, and auxiliary types, returning an opaque schema handle", which leaves the
  registry as the helpers filled it. The assembly, the two constructors and the baseline
  directives stay parameters.
\<close>

definition spec_builder ::
  "(unit GraphQLObjectType \<Rightarrow> unit GraphQLObjectType option \<Rightarrow> unit GraphQLObjectType option
      \<Rightarrow> unit GraphQLDirective list \<Rightarrow> unit GraphQLObjectType list \<Rightarrow> error + 'h)
    \<Rightarrow> ('p directive_declaration list \<Rightarrow> error + 'm) \<Rightarrow> unit GraphQLDirective sequence
    \<Rightarrow> ('x list \<Rightarrow> error + 'r)
    \<Rightarrow> ('p type_declaration, 'p directive_declaration, 'x, 'p, unit, 'h, 'm, 'r) builder" where
  "spec_builder assemble new_middleware baseline new_runner =
     \<lparr>get_object_type = spec_get_object_type,
      get_directive_type = spec_get_directive_type,
      DirectivesMiddleware = new_middleware,
      specified_directives = baseline,
      GraphQLSchema =
        (\<lambda>qt mt st ds ts tm.
           case assemble qt mt st ds ts of Inl e \<Rightarrow> Inl e | Inr h \<Rightarrow> Inr (h, tm)),
      ExtensionsRunner = new_runner\<rparr>"

section \<open>A concrete instance\<close>

text \<open>
  A small instance of the collaborators, on which the properties are evaluated. Host
  declarations are their names, and a middleware object is the list of directive
  declarations it was built from. \<open>demo_builder\<close> registers an object type under its
  name, raises \<^verbatim>\<open>ValueError\<close> for \<^verbatim>\<open>None\<close>, converts a directive declaration to a
  descriptor of the same name, has the baseline directives \<^verbatim>\<open>skip\<close> and \<^verbatim>\<open>include\<close> in a
  list, and assembles as schema handle the list of directive names it was given, whatever
  they are.
\<close>

definition demo_builder ::
  "(string, string, string, unit, unit, string list, string list, string list) builder" where
  "demo_builder =
     \<lparr>get_object_type =
        (\<lambda>x tm. case x of
           None \<Rightarrow> Inl (Exception ''ValueError'')
         | Some n \<Rightarrow>
             Inr (GraphQLObjectType n (), tm(n \<mapsto> ConcreteType (TypeDefinition n ())))),
      get_directive_type = (\<lambda>d tm. Inr (GraphQLDirective d (), tm)),
      DirectivesMiddleware = (\<lambda>ds. Inr ds),
      specified_directives =
        PyList [GraphQLDirective ''skip'' (), GraphQLDirective ''include'' ()],
      GraphQLSchema = (\<lambda>q m s ds ts tm. Inr (map directive_name ds, tm)),
      ExtensionsRunner = (\<lambda>exts. Inr [])\<rparr>"

text \<open>The object \<^verbatim>\<open>Schema(Query, directives=[upper])\<close> of this instance.\<close>

definition demo_schema :: "(unit, string list, string list, string list) Schema" where
  "demo_schema =
     \<lparr>type_map = [''Query'' \<mapsto> ConcreteType (TypeDefinition ''Query'' ())],
      middleware = [[''upper'']],
      gql_schema = [''skip'', ''include'', ''upper''],
      query = ConcreteType (TypeDefinition ''Query'' ()),
      extensions_runner = []\<rparr>"


text \<open>
  An instance of the builder modelled from the specification, and the object
  \<^verbatim>\<open>Schema(Query)\<close> it constructs for a query type from which a type \<^verbatim>\<open>User\<close> is reachable.
\<close>

definition registry_builder ::
  "(unit type_declaration, unit directive_declaration, string, unit, unit, string list,
    string list, string list) builder" where
  "registry_builder =
     spec_builder (\<lambda>qt mt st ds ts. Inr (map directive_name ds))
       (\<lambda>ds. Inr (map declared_name ds))
       (PyList [GraphQLDirective ''skip'' (), GraphQLDirective ''include'' ()])
       (\<lambda>exts. Inr [])"

definition query_declaration :: "unit type_declaration" where
  "query_declaration =
     TypeDeclaration (TypeDefinition ''Query'' ())
       [TypeDeclaration (TypeDefinition ''User'' ()) []]"

definition registry_schema :: "(unit, string list, string list, string list) Schema" where
  "registry_schema =
     \<lparr>type_map = [''Query'' \<mapsto> ConcreteType (TypeDefinition ''Query'' ()),
                  ''User'' \<mapsto> ConcreteType (TypeDefinition ''User'' ())],
      middleware = [[]],
      gql_schema = [''skip'', ''include''],
      query = ConcreteType (TypeDefinition ''Query'' ()),
      extensions_runner = []\<rparr>"

text \<open>
  \<open>logging_engine\<close>: the runner holds what one extension has collected, the texts of the
  queries it has seen, and reports them under the key \<^verbatim>\<open>queries\<close>; the extension appends
  and never clears. The parser rejects the empty text.
\<close>

definition logging_engine ::
  "(string list, string list, string list, string list, string, string list) engine" where
  "logging_engine =
     \<lparr>execute =
        (\<lambda>h q v r c opn ms rn.
           (Inr (Completed (GraphQLExecutionResult (Some [q]) None)), rn @ [q])),
      get_extensions_results = (\<lambda>rn. [''queries'' \<mapsto> rn]),
      parse = (\<lambda>q. if q = [] then Inl (Exception ''GraphQLSyntaxError'') else Inr q),
      subscribe = (\<lambda>h doc r c v opn. Some (Inr [doc]))\<rparr>"

text \<open>
  \<open>awaiting_engine\<close> returns an awaitable that resolves to data together with an error;
  \<open>partial_engine\<close> completes at once with the same partial result; the extension of
  \<open>request_engine\<close> starts afresh at each request; \<open>checking_engine\<close> fails unless the
  first middleware it is handed is the directives middleware of \<open>demo_schema\<close>.
\<close>

definition awaiting_engine ::
  "(string list, string list, string list, string list, string, string list) engine" where
  "awaiting_engine =
     logging_engine
       \<lparr>execute :=
          (\<lambda>h q v r c opn ms rn.
             (Inr (Awaitable (\<lambda>rn'.
                Some (Inr (GraphQLExecutionResult (Some [q]) (Some [[''boom'']])),
                      rn' @ [''resolved'']))),
              rn @ [q]))\<rparr>"

definition partial_engine ::
  "(string list, string list, string list, string list, string, string list) engine" where
  "partial_engine =
     logging_engine
       \<lparr>execute :=
          (\<lambda>h q v r c opn ms rn.
             (Inr (Completed (GraphQLExecutionResult (Some [q]) (Some [[''boom'']]))),
              rn @ [q]))\<rparr>"

definition request_engine ::
  "(string list, string list, string list, string list, string, string list) engine" where
  "request_engine =
     logging_engine
       \<lparr>execute :=
          (\<lambda>h q v r c opn ms rn.
             (Inr (Completed (GraphQLExecutionResult (Some [q]) None)), [q]))\<rparr>"

definition checking_engine ::
  "(string list, string list, string list, string list, string, string list) engine" where
  "checking_engine =
     logging_engine
       \<lparr>execute :=
          (\<lambda>h q v r c opn ms rn.
             if ms \<noteq> [] \<and> hd ms = [''upper'']
             then execute logging_engine h q v r c opn ms rn
             else (Inl (Exception ''AssertionError''), rn))\<rparr>"

section \<open>Lemmas on the constructor and on the life of an object\<close>

lemma Schema_init_InrD:
  assumes "Schema_init B qry mut sub dirs tys exts = Inr s"
  obtains query_type tm1 mutation_type tm2 subscription_type tm3 dm gdirs tm4 all_directives
    gtypes tm5 tm6 ct runner where
    "get_object_type B qry Map.empty = Inr (query_type, tm1)"
    "get_optional_object_type B mut tm1 = Inr (mutation_type, tm2)"
    "get_optional_object_type B sub tm2 = Inr (subscription_type, tm3)"
    "DirectivesMiddleware B dirs = Inr dm"
    "get_directive_types B dirs tm3 = Inr (gdirs, tm4)"
    "add_list (specified_directives B) gdirs = Inr all_directives"
    "get_object_types B tys tm4 = Inr (gtypes, tm5)"
    "GraphQLSchema B query_type mutation_type subscription_type all_directives gtypes tm5
       = Inr (gql_schema s, tm6)"
    "tm6 (name query_type) = Some ct"
    "ExtensionsRunner B exts = Inr runner"
    "s = \<lparr>type_map = tm6, middleware = [dm], gql_schema = gql_schema s,
          query = ct, extensions_runner = runner\<rparr>"
  using assms unfolding Schema_init_def
  by (auto split: sum.splits prod.splits option.splits)


lemma sync_keeps:
  "Schema_execute_sync E s q v c r opn = (out, s') \<Longrightarrow>
     middleware s' = middleware s \<and> type_map s' = type_map s \<and> gql_schema s' = gql_schema s \<and> query s' = query s"
  unfolding Schema_execute_sync_def
  by (auto split: sum.splits prod.splits engine_value.splits)

lemma async_keeps:
  "Schema_execute E s q v c r opn = Some (out, s') \<Longrightarrow>
     middleware s' = middleware s \<and> type_map s' = type_map s \<and> gql_schema s' = gql_schema s \<and> query s' = query s"
  unfolding Schema_execute_def
  by (auto split: sum.splits prod.splits engine_value.splits option.splits)

lemma reachable_keeps:
  "reachable E s0 s \<Longrightarrow>
     middleware s = middleware s0 \<and> type_map s = type_map s0 \<and> gql_schema s = gql_schema s0 \<and> query s = query s0"
  by (induction rule: reachable.induct) (auto dest: sync_keeps async_keeps)

lemma demo_schema_constructed:
  "Schema_init demo_builder (Some ''Query'') None None [''upper''] [] [] = Inr demo_schema"
  by (simp add: Schema_init_def demo_builder_def demo_schema_def get_optional_object_type_def
        add_list_def)

lemma keyed_by_name_empty: "keyed_by_name Map.empty"
  by (simp add: keyed_by_name_def)

lemma keyed_optional:
  "registers_by_name B \<Longrightarrow> keyed_by_name tm \<Longrightarrow>
     get_optional_object_type B x tm = Inr (g, tm') \<Longrightarrow> keyed_by_name tm'"
proof (cases x)
  case None
  assume "keyed_by_name tm" "get_optional_object_type B x tm = Inr (g, tm')"
  with None show ?thesis by (simp add: get_optional_object_type_def)
next
  case (Some t)
  assume reg: "registers_by_name B" and k: "keyed_by_name tm"
    and r: "get_optional_object_type B x tm = Inr (g, tm')"
  from r Some obtain g' where "get_object_type B (Some t) tm = Inr (g', tm')"
    by (auto simp: get_optional_object_type_def split: sum.splits)
  with reg k show ?thesis
    unfolding registers_by_name_def by blast
qed

lemma keyed_directive_types:
  "registers_by_name B \<Longrightarrow> keyed_by_name tm \<Longrightarrow>
     get_directive_types B ds tm = Inr (gs, tm') \<Longrightarrow> keyed_by_name tm'"
proof (induction ds arbitrary: tm gs)
  case Nil
  then show ?case by simp
next
  case (Cons d ds)
  from Cons.prems(3) obtain g tm1 gs' where
    one: "get_directive_type B d tm = Inr (g, tm1)" and
    rest: "get_directive_types B ds tm1 = Inr (gs', tm')"
    by (auto split: sum.splits)
  from Cons.prems(1,2) one have "keyed_by_name tm1"
    unfolding registers_by_name_def by blast
  with Cons.IH Cons.prems(1) rest show ?case by blast
qed

lemma keyed_object_types:
  "registers_by_name B \<Longrightarrow> keyed_by_name tm \<Longrightarrow>
     get_object_types B ts tm = Inr (gs, tm') \<Longrightarrow> keyed_by_name tm'"
proof (induction ts arbitrary: tm gs)
  case Nil
  then show ?case by simp
next
  case (Cons t ts)
  from Cons.prems(3) obtain g tm1 gs' where
    one: "get_object_type B (Some t) tm = Inr (g, tm1)" and
    rest: "get_object_types B ts tm1 = Inr (gs', tm')"
    by (auto split: sum.splits)
  from Cons.prems(1,2) one have "keyed_by_name tm1"
    unfolding registers_by_name_def by blast
  with Cons.IH Cons.prems(1) rest show ?case by blast
qed

lemma Schema_init_keyed:
  assumes init: "Schema_init B qry mut sub dirs tys exts = Inr s"
      and reg: "registers_by_name B"
  shows "keyed_by_name (type_map s)"
proof -
  from init obtain query_type tm1 mutation_type tm2 subscription_type tm3 dm gdirs tm4
      all_directives gtypes tm5 tm6 ct runner
    where q: "get_object_type B qry Map.empty = Inr (query_type, tm1)"
      and m: "get_optional_object_type B mut tm1 = Inr (mutation_type, tm2)"
      and sb: "get_optional_object_type B sub tm2 = Inr (subscription_type, tm3)"
      and d: "get_directive_types B dirs tm3 = Inr (gdirs, tm4)"
      and t: "get_object_types B tys tm4 = Inr (gtypes, tm5)"
      and g: "GraphQLSchema B query_type mutation_type subscription_type all_directives
                gtypes tm5 = Inr (gql_schema s, tm6)"
      and s: "s = \<lparr>type_map = tm6, middleware = [dm], gql_schema = gql_schema s,
                query = ct, extensions_runner = runner\<rparr>"
    by (rule Schema_init_InrD)
  from reg q keyed_by_name_empty have "keyed_by_name tm1"
    unfolding registers_by_name_def by blast
  then have "keyed_by_name tm2" using keyed_optional [OF reg _ m] by blast
  then have "keyed_by_name tm3" using keyed_optional [OF reg _ sb] by blast
  then have "keyed_by_name tm4" using keyed_directive_types [OF reg _ d] by blast
  then have "keyed_by_name tm5" using keyed_object_types [OF reg _ t] by blast
  with reg g have "keyed_by_name tm6"
    unfolding registers_by_name_def by blast
  moreover have "type_map s = tm6" by (subst s) simp
  ultimately show ?thesis by simp
qed

lemma register_keyed:
  "keyed_by_name tm \<Longrightarrow> register x tm = Inr tm' \<Longrightarrow> keyed_by_name tm'"
  "keyed_by_name tm \<Longrightarrow> register_all xs tm = Inr tm' \<Longrightarrow> keyed_by_name tm'"
proof (induction x tm and xs tm arbitrary: tm' and tm' rule: register_register_all.induct)
  case (1 d ds tm)
  show ?case
  proof (cases "tm (def_name d)")
    case None
    have "keyed_by_name (tm(def_name d \<mapsto> ConcreteType d))"
      using "1.prems"(1) by (simp add: keyed_by_name_def)
    moreover from "1.prems"(2) None
    have "register_all ds (tm(def_name d \<mapsto> ConcreteType d)) = Inr tm'" by simp
    ultimately show ?thesis using "1.IH" None by blast
  next
    case (Some ct)
    with "1.prems" show ?thesis by (simp split: if_splits)
  qed
next
  case (2 tm)
  then show ?case by simp
next
  case (3 x xs tm)
  from "3.prems"(2) obtain tm1 where
    one: "register x tm = Inr tm1" and rest: "register_all xs tm1 = Inr tm'"
    by (auto split: sum.splits)
  from "3.IH"(1) [OF "3.prems"(1) one] have "keyed_by_name tm1" .
  with "3.IH"(2) one rest show ?case by blast
qed

lemma spec_get_object_type_keyed:
  assumes "keyed_by_name tm" and "spec_get_object_type x tm = Inr (g, tm')"
  shows "keyed_by_name tm'"
proof (cases x)
  case None
  with assms(2) show ?thesis by (simp add: spec_get_object_type_def)
next
  case (Some decl)
  with assms(2) have "register decl tm = Inr tm'"
    by (simp add: spec_get_object_type_def split: sum.splits)
  with assms(1) show ?thesis by (rule register_keyed(1))
qed

lemma spec_get_directive_type_keyed:
  assumes "keyed_by_name tm" and "spec_get_directive_type d tm = Inr (g, tm')"
  shows "keyed_by_name tm'"
proof -
  from assms(2) have "register_all (argument_types d) tm = Inr tm'"
    by (simp add: spec_get_directive_type_def split: sum.splits)
  with assms(1) show ?thesis by (rule register_keyed(2))
qed

lemma spec_assembly_keeps:
  assumes "GraphQLSchema (spec_builder assemble new_middleware baseline new_runner)
             qt mt st ds ts tm = Inr (h, tm')"
  shows "tm' = tm"
  using assms by (simp add: spec_builder_def split: sum.splits)

lemma spec_builder_registers:
  "registers_by_name (spec_builder assemble new_middleware baseline new_runner)"
  unfolding registers_by_name_def
proof (intro conjI allI impI)
  fix x tm g tm'
  assume "keyed_by_name tm"
    and "get_object_type (spec_builder assemble new_middleware baseline new_runner) x tm
           = Inr (g, tm')"
  then show "keyed_by_name tm'"
    using spec_get_object_type_keyed by (simp add: spec_builder_def)
next
  fix d tm g tm'
  assume "keyed_by_name tm"
    and "get_directive_type (spec_builder assemble new_middleware baseline new_runner) d tm
           = Inr (g, tm')"
  then show "keyed_by_name tm'"
    using spec_get_directive_type_keyed by (simp add: spec_builder_def)
next
  fix qt mt st ds ts tm h tm'
  assume k: "keyed_by_name tm"
    and g: "GraphQLSchema (spec_builder assemble new_middleware baseline new_runner)
           qt mt st ds ts tm = Inr (h, tm')"
  from g have "tm' = tm" by (rule spec_assembly_keeps)
  with k show "keyed_by_name tm'" by simp
qed

lemma registry_schema_constructed:
  "Schema_init registry_builder (Some query_declaration) None None [] [] []
     = Inr registry_schema"
  by (simp add: Schema_init_def registry_builder_def spec_builder_def registry_schema_def
        query_declaration_def spec_get_object_type_def get_optional_object_type_def
        add_list_def)

lemma reachable_after_first:
  "reachable logging_engine demo_schema (demo_schema\<lparr>extensions_runner := [''{ first }'']\<rparr>)"
proof -
  have "Schema_execute_sync logging_engine demo_schema ''{ first }'' None None None None =
          (Inr \<lparr>data = Some [''{ first }''], errors = None,
                extensions = [''queries'' \<mapsto> [''{ first }'']]\<rparr>,
           demo_schema\<lparr>extensions_runner := [''{ first }'']\<rparr>)"
    by (simp add: Schema_execute_sync_def logging_engine_def demo_schema_def)
  with reachable.constructed show ?thesis
    by (rule reachable.after_execute_sync)
qed


lemma sync_runner:
  "Schema_execute_sync E s q v c r opn = (out, s') \<Longrightarrow> \<exists>rn. s' = s\<lparr>extensions_runner := rn\<rparr>"
  unfolding Schema_execute_sync_def
  by (auto split: sum.splits prod.splits engine_value.splits)

lemma async_runner:
  "Schema_execute E s q v c r opn = Some (out, s') \<Longrightarrow> \<exists>rn. s' = s\<lparr>extensions_runner := rn\<rparr>"
  unfolding Schema_execute_def
  by (auto split: sum.splits prod.splits engine_value.splits option.splits)

lemma reachable_runner:
  "reachable E s0 s \<Longrightarrow> \<exists>rn. s = s0\<lparr>extensions_runner := rn\<rparr>"
proof (induction rule: reachable.induct)
  case constructed
  have "s0 = s0\<lparr>extensions_runner := extensions_runner s0\<rparr>" by simp
  then show ?case ..
next
  case (after_execute_sync s q v c r opn out s')
  from after_execute_sync.hyps(2) obtain rn where "s' = s\<lparr>extensions_runner := rn\<rparr>"
    using sync_runner by blast
  moreover from after_execute_sync.IH obtain rn0 where "s = s0\<lparr>extensions_runner := rn0\<rparr>" ..
  ultimately have "s' = s0\<lparr>extensions_runner := rn\<rparr>" by simp
  then show ?case ..
next
  case (after_execute s q v c r opn out s')
  from after_execute.hyps(2) obtain rn where "s' = s\<lparr>extensions_runner := rn\<rparr>"
    using async_runner by blast
  moreover from after_execute.IH obtain rn0 where "s = s0\<lparr>extensions_runner := rn0\<rparr>" ..
  ultimately have "s' = s0\<lparr>extensions_runner := rn\<rparr>" by simp
  then show ?case ..
qed

lemma sync_snapshot:
  "Schema_execute_sync E s q v c r opn = (Inr res, s') \<Longrightarrow>
     snapshot_after E (execute E (gql_schema s) q v r c opn (middleware s) (extensions_runner s))
       = Some (extensions res)"
  unfolding Schema_execute_sync_def snapshot_after_def
  by (auto split: sum.splits prod.splits engine_value.splits)

lemma async_snapshot:
  "Schema_execute E s q v c r opn = Some (Inr res, s') \<Longrightarrow>
     snapshot_after E (execute E (gql_schema s) q v r c opn (middleware s) (extensions_runner s))
       = Some (extensions res)"
  unfolding Schema_execute_def snapshot_after_def
  by (auto split: sum.splits prod.splits engine_value.splits option.splits)

lemma request_engine_scoped: "request_scoped request_engine"
  by (simp add: request_scoped_def snapshot_after_def request_engine_def logging_engine_def)

lemma request_engine_reachable:
  "reachable request_engine demo_schema (demo_schema\<lparr>extensions_runner := [''{ first }'']\<rparr>)"
proof -
  have "Schema_execute_sync request_engine demo_schema ''{ first }'' None None None None =
          (Inr \<lparr>data = Some [''{ first }''], errors = None,
                extensions = [''queries'' \<mapsto> [''{ first }'']]\<rparr>,
           demo_schema\<lparr>extensions_runner := [''{ first }'']\<rparr>)"
    by (simp add: Schema_execute_sync_def request_engine_def logging_engine_def demo_schema_def)
  with reachable.constructed show ?thesis
    by (rule reachable.after_execute_sync)
qed
section \<open>The properties\<close>

text \<open>
  C1, as stated: when the engine's \<^verbatim>\<open>execute\<close> returns an awaitable, \<^verbatim>\<open>execute_sync\<close>
  raises a \<^verbatim>\<open>SynchronousExecutionError\<close>. On \<open>awaiting_engine\<close> the exception is another
  one.
\<close>

theorem execute_sync_awaitable_counterexample:
  "fst (Schema_execute_sync awaiting_engine demo_schema ''{ hello }'' None None None None)
     \<noteq> Inl SynchronousExecutionError"
  by (simp add: Schema_execute_sync_def awaiting_engine_def logging_engine_def demo_schema_def)

text \<open>
  C1, as the code has it: when the engine's \<^verbatim>\<open>execute\<close> returns an awaitable,
  \<^verbatim>\<open>execute_sync\<close> returns no \<^verbatim>\<open>ExecutionResult\<close>: the read of \<^verbatim>\<open>result.data\<close> raises
  \<^verbatim>\<open>AttributeError\<close>, which reaches the caller. The method has no test for an awaitable and
  no exception class of its own.
\<close>

theorem execute_sync_awaitable_raises:
  assumes "fst (execute E (gql_schema self) q variable_values root_value context_value
             operation_name (middleware self) (extensions_runner self)) = Inr (Awaitable k)"
  shows "fst (Schema_execute_sync E self q variable_values context_value root_value
            operation_name) = Inl (AttributeError ''data'')"
proof -
  obtain a rn where ex: "execute E (gql_schema self) q variable_values root_value
      context_value operation_name (middleware self) (extensions_runner self) = (a, rn)"
    by (cases "execute E (gql_schema self) q variable_values root_value
      context_value operation_name (middleware self) (extensions_runner self)")
  with assms have "a = Inr (Awaitable k)" by simp
  with ex show ?thesis by (simp add: Schema_execute_sync_def)
qed

theorem execute_sync_awaitable_raises_witness:
  "fst (Schema_execute_sync awaiting_engine demo_schema ''{ hello }'' None None None None)
     = Inl (AttributeError ''data'')"
  by (rule execute_sync_awaitable_raises [where k = "\<lambda>rn'.
        Some (Inr (GraphQLExecutionResult (Some [''{ hello }'']) (Some [[''boom'']])),
              rn' @ [''resolved''])"])
     (simp add: awaiting_engine_def logging_engine_def)

text \<open>
  C2: when the engine's \<^verbatim>\<open>execute\<close> returns a completed result, \<^verbatim>\<open>execute\<close> and
  \<^verbatim>\<open>execute_sync\<close>, called with the same arguments on the same object, both return an
  \<^verbatim>\<open>ExecutionResult\<close>, with the same \<^verbatim>\<open>data\<close> and the same \<^verbatim>\<open>errors\<close>.
\<close>

theorem execute_and_execute_sync_agree:
  assumes "fst (execute E (gql_schema self) q variable_values root_value context_value
             operation_name (middleware self) (extensions_runner self)) = Inr (Completed result)"
  shows "\<exists>ra rs sa ss.
           Schema_execute E self q variable_values context_value root_value operation_name
             = Some (Inr ra, sa) \<and>
           Schema_execute_sync E self q variable_values context_value root_value operation_name
             = (Inr rs, ss) \<and>
           data ra = data rs \<and> errors ra = errors rs"
proof -
  obtain a rn where ex: "execute E (gql_schema self) q variable_values root_value
      context_value operation_name (middleware self) (extensions_runner self) = (a, rn)"
    by (cases "execute E (gql_schema self) q variable_values root_value
      context_value operation_name (middleware self) (extensions_runner self)")
  with assms have a: "a = Inr (Completed result)" by simp
  from ex a show ?thesis
    by (simp add: Schema_execute_def Schema_execute_sync_def)
qed

theorem execute_and_execute_sync_agree_witness:
  "\<exists>ra rs sa ss.
     Schema_execute partial_engine demo_schema ''{ hello }'' None None None None
       = Some (Inr ra, sa) \<and>
     Schema_execute_sync partial_engine demo_schema ''{ hello }'' None None None None
       = (Inr rs, ss) \<and>
     data ra = data rs \<and> errors ra = errors rs"
  by (rule execute_and_execute_sync_agree
        [where result = "GraphQLExecutionResult (Some [''{ hello }'']) (Some [[''boom'']])"])
     (simp add: partial_engine_def logging_engine_def)

text \<open>
  C3: \<^verbatim>\<open>get_type_by_name\<close> returns the definition of the ConcreteType the registry holds
  under exactly the queried name, and \<^verbatim>\<open>None\<close> when the registry holds nothing under it;
  this is the code of lines 56-62 and holds of every \<^verbatim>\<open>Schema\<close> object. That the returned
  definition's name is the queried name is a property of how the registry is filled,
  which the module leaves to the type-declaration helpers: it is proved for every
  \<^verbatim>\<open>Schema\<close> constructed with the helpers as the specification describes them, whatever
  the assembly, the constructors and the baseline directives are.
\<close>

theorem get_type_by_name_registered:
  "get_type_by_name self nm = map_option definition' (type_map self nm) \<and>
   (Schema_init (spec_builder assemble new_middleware baseline new_runner)
        qry mut sub dirs tys exts = Inr self \<longrightarrow>
      (\<forall>d. get_type_by_name self nm = Some d \<longrightarrow> def_name d = nm))"
proof (intro conjI impI)
  show lookup: "get_type_by_name self nm = map_option definition' (type_map self nm)"
    by (cases "type_map self nm") (simp_all add: get_type_by_name_def)
  assume "Schema_init (spec_builder assemble new_middleware baseline new_runner)
            qry mut sub dirs tys exts = Inr self"
  then have "keyed_by_name (type_map self)"
    using spec_builder_registers by (rule Schema_init_keyed)
  with lookup show "\<forall>d. get_type_by_name self nm = Some d \<longrightarrow> def_name d = nm"
    by (auto simp: keyed_by_name_def)
qed

theorem get_type_by_name_registered_witness:
  "Schema_init registry_builder (Some query_declaration) None None [] [] []
     = Inr registry_schema \<and>
   get_type_by_name registry_schema ''User'' = Some (TypeDefinition ''User'' ()) \<and>
   def_name (the (get_type_by_name registry_schema ''User'')) = ''User'' \<and>
   get_type_by_name registry_schema ''Mutation'' = None"
proof -
  have c: "Schema_init (spec_builder (\<lambda>qt mt st ds ts. Inr (map directive_name ds))
             (\<lambda>ds. Inr (map declared_name ds))
             (PyList [GraphQLDirective ''skip'' (), GraphQLDirective ''include'' ()])
             (\<lambda>exts :: string list. Inr []))
           (Some query_declaration) None None [] [] [] = Inr registry_schema"
    using registry_schema_constructed by (simp add: registry_builder_def)
  from get_type_by_name_registered
         [where self = registry_schema and nm = "''User''"
            and assemble = "\<lambda>qt mt st ds ts. Inr (map directive_name ds)"
            and new_middleware = "\<lambda>ds. Inr (map declared_name ds)"
            and baseline = "PyList [GraphQLDirective ''skip'' (), GraphQLDirective ''include'' ()]"
            and new_runner = "\<lambda>exts :: string list. Inr []"
            and qry = "Some query_declaration" and mut = None and sub = None
            and dirs = "[]" and tys = "[]" and exts = "[]"]
       get_type_by_name_registered
         [where self = registry_schema and nm = "''Mutation''"
            and assemble = "\<lambda>qt mt st ds ts. Inr (map directive_name ds)"
            and new_middleware = "\<lambda>ds. Inr (map declared_name ds)"
            and baseline = "PyList [GraphQLDirective ''skip'' (), GraphQLDirective ''include'' ()]"
            and new_runner = "\<lambda>exts :: string list. Inr []"
            and qry = "Some query_declaration" and mut = None and sub = None
            and dirs = "[]" and tys = "[]" and exts = "[]"]
       c registry_schema_constructed
  show ?thesis by (simp add: registry_schema_def)
qed

text \<open>
  C4: for a constructed \<^verbatim>\<open>Schema\<close>, at any later moment of its life, the middleware list
  is not empty and its first element is the object \<^verbatim>\<open>DirectivesMiddleware(directives)\<close>
  built from the directive declarations given to the constructor. Both \<^verbatim>\<open>execute\<close> and
  \<^verbatim>\<open>execute_sync\<close> call the engine with a list that starts with it: an engine that reports
  the first middleware it is handed makes either method raise \<open>seen\<close>, never \<open>other\<close>; and
  two engines that differ only on lists with another first element cannot be told apart
  through either method.
\<close>

theorem directives_middleware_first:
  assumes init: "Schema_init B qry mut sub dirs tys exts = Inr s0"
      and reach: "reachable E s0 s"
      and built: "DirectivesMiddleware B dirs = Inr dm"
  shows "middleware s \<noteq> [] \<and> hd (middleware s) = dm \<and>
         fst (Schema_execute_sync (reporting_engine dm seen other E1) s q variable_values
                context_value root_value operation_name) = Inl seen \<and>
         map_option fst (Schema_execute (reporting_engine dm seen other E1) s q
                variable_values context_value root_value operation_name) = Some (Inl seen) \<and>
         ((\<forall>h q' v r c opn ms rn. ms \<noteq> [] \<and> hd ms = dm \<longrightarrow>
              execute E1 h q' v r c opn ms rn = execute E2 h q' v r c opn ms rn) \<and>
          get_extensions_results E1 = get_extensions_results E2 \<longrightarrow>
            Schema_execute_sync E1 s q variable_values context_value root_value
                operation_name =
              Schema_execute_sync E2 s q variable_values context_value root_value
                operation_name \<and>
            Schema_execute E1 s q variable_values context_value root_value operation_name =
              Schema_execute E2 s q variable_values context_value root_value operation_name)"
proof -
  from init obtain dm' query_type tm runner where
      "DirectivesMiddleware B dirs = Inr dm'"
      and s0: "s0 = \<lparr>type_map = tm, middleware = [dm'], gql_schema = gql_schema s0,
                 query = query_type, extensions_runner = runner\<rparr>"
    by (rule Schema_init_InrD)
  with built have "dm' = dm" by simp
  moreover from arg_cong [OF s0, of middleware] have "middleware s0 = [dm']" by simp
  ultimately have "middleware s0 = [dm]" by simp
  with reach have m: "middleware s = [dm]"
    by (simp add: reachable_keeps)
  have sync: "fst (Schema_execute_sync (reporting_engine dm seen other E1) s q
      variable_values context_value root_value operation_name) = Inl seen"
    using m by (simp add: Schema_execute_sync_def reporting_engine_def)
  have async: "map_option fst (Schema_execute (reporting_engine dm seen other E1) s q
      variable_values context_value root_value operation_name) = Some (Inl seen)"
    using m by (simp add: Schema_execute_def reporting_engine_def)
  have same: "Schema_execute_sync E1 s q variable_values context_value root_value
        operation_name =
      Schema_execute_sync E2 s q variable_values context_value root_value operation_name \<and>
      Schema_execute E1 s q variable_values context_value root_value operation_name =
      Schema_execute E2 s q variable_values context_value root_value operation_name"
    if agree: "\<forall>h q' v r c opn ms rn. ms \<noteq> [] \<and> hd ms = dm \<longrightarrow>
              execute E1 h q' v r c opn ms rn = execute E2 h q' v r c opn ms rn"
      and res: "get_extensions_results E1 = get_extensions_results E2"
  proof -
    from m agree have call:
      "execute E1 (gql_schema s) q variable_values root_value context_value operation_name
         (middleware s) (extensions_runner s) =
       execute E2 (gql_schema s) q variable_values root_value context_value operation_name
         (middleware s) (extensions_runner s)"
      by simp
    from m call res show ?thesis
      by (simp add: Schema_execute_sync_def Schema_execute_def
            split: sum.splits prod.splits engine_value.splits option.splits)
  qed
  from m sync async same show ?thesis by simp
qed

theorem directives_middleware_first_witness:
  "DirectivesMiddleware demo_builder [''upper''] = Inr [''upper''] \<and>
   hd (middleware (demo_schema\<lparr>extensions_runner := [''{ first }'']\<rparr>)) = [''upper''] \<and>
   fst (Schema_execute_sync
          (reporting_engine [''upper''] (Exception ''seen'') (Exception ''other'')
             logging_engine)
          (demo_schema\<lparr>extensions_runner := [''{ first }'']\<rparr>)
          ''{ second }'' None None None None) = Inl (Exception ''seen'') \<and>
   map_option fst (Schema_execute
          (reporting_engine [''upper''] (Exception ''seen'') (Exception ''other'')
             logging_engine)
          (demo_schema\<lparr>extensions_runner := [''{ first }'']\<rparr>)
          ''{ second }'' None None None None) = Some (Inl (Exception ''seen'')) \<and>
   Schema_execute_sync checking_engine (demo_schema\<lparr>extensions_runner := [''{ first }'']\<rparr>)
       ''{ second }'' None None None None =
     Schema_execute_sync logging_engine (demo_schema\<lparr>extensions_runner := [''{ first }'']\<rparr>)
       ''{ second }'' None None None None \<and>
   Schema_execute checking_engine (demo_schema\<lparr>extensions_runner := [''{ first }'']\<rparr>)
       ''{ second }'' None None None None =
     Some (Inr \<lparr>data = Some [''{ second }''], errors = None,
                extensions = [''queries'' \<mapsto> [''{ first }'', ''{ second }'']]\<rparr>,
           demo_schema\<lparr>extensions_runner := [''{ first }'', ''{ second }'']\<rparr>)"
proof -
  have built: "DirectivesMiddleware demo_builder [''upper''] = Inr [''upper'']"
    by (simp add: demo_builder_def)
  have agree: "\<forall>h q' v r c opn ms rn. ms \<noteq> [] \<and> hd ms = [''upper''] \<longrightarrow>
      execute checking_engine h q' v r c opn ms rn = execute logging_engine h q' v r c opn ms rn"
    by (simp add: checking_engine_def)
  have res: "get_extensions_results checking_engine = get_extensions_results logging_engine"
    by (simp add: checking_engine_def)
  have run: "Schema_execute logging_engine
          (demo_schema\<lparr>extensions_runner := [''{ first }'']\<rparr>)
          ''{ second }'' None None None None =
     Some (Inr \<lparr>data = Some [''{ second }''], errors = None,
                extensions = [''queries'' \<mapsto> [''{ first }'', ''{ second }'']]\<rparr>,
           demo_schema\<lparr>extensions_runner := [''{ first }'', ''{ second }'']\<rparr>)"
    by (simp add: Schema_execute_def logging_engine_def demo_schema_def)
  from directives_middleware_first
         [OF demo_schema_constructed reachable_after_first built,
          where seen = "Exception ''seen''" and other = "Exception ''other''"
            and ?E1.0 = checking_engine and ?E2.0 = logging_engine
            and q = "''{ second }''" and variable_values = None and context_value = None
            and root_value = None and operation_name = None]
       directives_middleware_first
         [OF demo_schema_constructed reachable_after_first built,
          where seen = "Exception ''seen''" and other = "Exception ''other''"
            and ?E1.0 = logging_engine and ?E2.0 = logging_engine
            and q = "''{ second }''" and variable_values = None and context_value = None
            and root_value = None and operation_name = None]
       built agree res run
  show ?thesis by (simp add: reporting_engine_def checking_engine_def)
qed

text \<open>
  C5: \<^verbatim>\<open>subscribe\<close> parses the query text and delegates to the engine's \<^verbatim>\<open>subscribe\<close>
  with the schema handle, the parsed document and the four pass-through arguments. Its
  outcome depends neither on the object's middleware list or extensions runner, nor on
  the engine's \<^verbatim>\<open>execute\<close> or the runner's results.
\<close>

theorem subscribe_delegates_without_middleware:
  "(parse E q = Inr document \<longrightarrow>
      Schema_subscribe E self q variable_values context_value root_value operation_name =
        subscribe E (gql_schema self) document root_value context_value variable_values
          operation_name) \<and>
   Schema_subscribe E (self\<lparr>middleware := ms, extensions_runner := rn\<rparr>) q variable_values
       context_value root_value operation_name =
     Schema_subscribe E self q variable_values context_value root_value operation_name \<and>
   Schema_subscribe (E\<lparr>execute := ex, get_extensions_results := ger\<rparr>) self q
       variable_values context_value root_value operation_name =
     Schema_subscribe E self q variable_values context_value root_value operation_name"
  by (simp add: Schema_subscribe_def split: sum.splits)

theorem subscribe_delegates_without_middleware_witness:
  "parse logging_engine ''subscription { ticks }'' = Inr ''subscription { ticks }'' \<and>
   Schema_subscribe logging_engine demo_schema ''subscription { ticks }'' None None None None =
     Some (Inr [''subscription { ticks }'']) \<and>
   Schema_subscribe logging_engine
       (demo_schema\<lparr>middleware := [], extensions_runner := [''earlier'']\<rparr>)
       ''subscription { ticks }'' None None None None =
     Some (Inr [''subscription { ticks }''])"
  using subscribe_delegates_without_middleware
          [where E = logging_engine and self = demo_schema and q = "''subscription { ticks }''"
             and document = "''subscription { ticks }''" and ms = "[]"
             and rn = "[''earlier'']" and variable_values = None and context_value = None
             and root_value = None and operation_name = None]
  by (simp add: logging_engine_def)

text \<open>
  C6: \<^verbatim>\<open>execute\<close> and \<^verbatim>\<open>execute_sync\<close> return the engine result's \<^verbatim>\<open>data\<close> and
  \<^verbatim>\<open>errors\<close> unchanged, data together with errors included, and as \<^verbatim>\<open>extensions\<close> the
  runner's results read after the engine call; for \<^verbatim>\<open>execute\<close> on an awaitable, the
  result is the awaited one and the runner is read after the await.
\<close>

theorem execution_result_passes_through:
  "(execute E (gql_schema self) q variable_values root_value context_value operation_name
      (middleware self) (extensions_runner self) = (Inr (Completed result), rn) \<longrightarrow>
      Schema_execute_sync E self q variable_values context_value root_value operation_name =
        (Inr \<lparr>data = gql_data result, errors = gql_errors result,
              extensions = get_extensions_results E rn\<rparr>,
         self\<lparr>extensions_runner := rn\<rparr>) \<and>
      Schema_execute E self q variable_values context_value root_value operation_name =
        Some (Inr \<lparr>data = gql_data result, errors = gql_errors result,
                   extensions = get_extensions_results E rn\<rparr>,
              self\<lparr>extensions_runner := rn\<rparr>)) \<and>
   (execute E (gql_schema self) q variable_values root_value context_value operation_name
      (middleware self) (extensions_runner self) = (Inr (Awaitable k), rn) \<and>
    k rn = Some (Inr result, rn') \<longrightarrow>
      Schema_execute E self q variable_values context_value root_value operation_name =
        Some (Inr \<lparr>data = gql_data result, errors = gql_errors result,
                   extensions = get_extensions_results E rn'\<rparr>,
              self\<lparr>extensions_runner := rn'\<rparr>))"
  by (simp add: Schema_execute_def Schema_execute_sync_def)

theorem execution_result_passes_through_witness:
  "Schema_execute_sync partial_engine demo_schema ''{ hello }'' None None None None =
     (Inr \<lparr>data = Some [''{ hello }''], errors = Some [[''boom'']],
           extensions = [''queries'' \<mapsto> [''{ hello }'']]\<rparr>,
      demo_schema\<lparr>extensions_runner := [''{ hello }'']\<rparr>) \<and>
   Schema_execute partial_engine demo_schema ''{ hello }'' None None None None =
     Some (Inr \<lparr>data = Some [''{ hello }''], errors = Some [[''boom'']],
                extensions = [''queries'' \<mapsto> [''{ hello }'']]\<rparr>,
           demo_schema\<lparr>extensions_runner := [''{ hello }'']\<rparr>) \<and>
   Schema_execute awaiting_engine demo_schema ''{ hello }'' None None None None =
     Some (Inr \<lparr>data = Some [''{ hello }''], errors = Some [[''boom'']],
                extensions = [''queries'' \<mapsto> [''{ hello }'', ''resolved'']]\<rparr>,
           demo_schema\<lparr>extensions_runner := [''{ hello }'', ''resolved'']\<rparr>)"
  using execution_result_passes_through
          [where E = partial_engine and self = demo_schema and q = "''{ hello }''"
             and variable_values = None and root_value = None and context_value = None
             and operation_name = None
             and result = "GraphQLExecutionResult (Some [''{ hello }'']) (Some [[''boom'']])"
             and rn = "[''{ hello }'']"]
        execution_result_passes_through
          [where E = awaiting_engine and self = demo_schema and q = "''{ hello }''"
             and variable_values = None and root_value = None and context_value = None
             and operation_name = None
             and k = "\<lambda>rn'. Some (Inr (GraphQLExecutionResult (Some [''{ hello }''])
                   (Some [[''boom'']])), rn' @ [''resolved''])"
             and rn = "[''{ hello }'']"
             and result = "GraphQLExecutionResult (Some [''{ hello }'']) (Some [[''boom'']])"
             and rn' = "[''{ hello }'', ''resolved'']"]
  by (simp add: partial_engine_def awaiting_engine_def logging_engine_def demo_schema_def)






text \<open>
  C9, as stated: the extensions mapping of a second request never holds data collected
  during the first. On \<open>logging_engine\<close>, whose extension appends and never clears, the
  second request reports the first request's query.
\<close>

theorem extensions_leak_counterexample:
  "(case fst (Schema_execute_sync logging_engine
               (snd (Schema_execute_sync logging_engine demo_schema ''{ first }''
                       None None None None))
               ''{ second }'' None None None None) of
      Inr res \<Rightarrow> extensions res ''queries'' | Inl e \<Rightarrow> None)
     = Some [''{ first }'', ''{ second }''] \<and>
   (case fst (Schema_execute_sync logging_engine demo_schema ''{ second }''
               None None None None) of
      Inr res \<Rightarrow> extensions res ''queries'' | Inl e \<Rightarrow> None)
     = Some [''{ second }'']"
  by (simp add: Schema_execute_sync_def logging_engine_def demo_schema_def)

text \<open>
  C9, as the code has it: a \<^verbatim>\<open>Schema\<close> keeps one runner and hands it to every request as
  the previous request left it. When the engine's extension results are per request
  (\<open>request_scoped\<close>), the mapping returned for a request after any earlier ones is the
  mapping the same request gets on the object as constructed.
\<close>

theorem extensions_isolated_when_request_scoped:
  assumes scoped: "request_scoped E"
      and reach: "reachable E s0 s1"
  shows "(Schema_execute_sync E s1 q v c r opn = (Inr res, s2) \<longrightarrow>
          Schema_execute_sync E s0 q v c r opn = (Inr res', s2') \<longrightarrow>
          extensions res = extensions res') \<and>
         (Schema_execute E s1 q v c r opn = Some (Inr res, s2) \<longrightarrow>
          Schema_execute E s0 q v c r opn = Some (Inr res', s2') \<longrightarrow>
          extensions res = extensions res')"
proof -
  from reach obtain rn where s1: "s1 = s0\<lparr>extensions_runner := rn\<rparr>"
    using reachable_runner by blast
  have same: "x = y"
    if "snapshot_after E (execute E (gql_schema s1) q v r c opn (middleware s1)
          (extensions_runner s1)) = Some x"
      and "snapshot_after E (execute E (gql_schema s0) q v r c opn (middleware s0)
          (extensions_runner s0)) = Some y"
    for x y
  proof -
    from that(1) s1 have "snapshot_after E (execute E (gql_schema s0) q v r c opn
        (middleware s0) rn) = Some x" by simp
    with scoped that(2) show ?thesis
      unfolding request_scoped_def by blast
  qed
  show ?thesis
    using same sync_snapshot async_snapshot by blast
qed

theorem extensions_isolated_when_request_scoped_witness:
  "request_scoped request_engine \<and>
   reachable request_engine demo_schema (demo_schema\<lparr>extensions_runner := [''{ first }'']\<rparr>) \<and>
   Schema_execute_sync request_engine (demo_schema\<lparr>extensions_runner := [''{ first }'']\<rparr>)
       ''{ second }'' None None None None =
     (Inr \<lparr>data = Some [''{ second }''], errors = None,
           extensions = [''queries'' \<mapsto> [''{ second }'']]\<rparr>,
      demo_schema\<lparr>extensions_runner := [''{ second }'']\<rparr>) \<and>
   Schema_execute_sync request_engine demo_schema ''{ second }'' None None None None =
     (Inr \<lparr>data = Some [''{ second }''], errors = None,
           extensions = [''queries'' \<mapsto> [''{ second }'']]\<rparr>,
      demo_schema\<lparr>extensions_runner := [''{ second }'']\<rparr>)"
proof -
  have a: "Schema_execute_sync request_engine
       (demo_schema\<lparr>extensions_runner := [''{ first }'']\<rparr>)
       ''{ second }'' None None None None =
     (Inr \<lparr>data = Some [''{ second }''], errors = None,
           extensions = [''queries'' \<mapsto> [''{ second }'']]\<rparr>,
      demo_schema\<lparr>extensions_runner := [''{ second }'']\<rparr>)"
    by (simp add: Schema_execute_sync_def request_engine_def logging_engine_def demo_schema_def)
  have b: "Schema_execute_sync request_engine demo_schema ''{ second }'' None None None None =
     (Inr \<lparr>data = Some [''{ second }''], errors = None,
           extensions = [''queries'' \<mapsto> [''{ second }'']]\<rparr>,
      demo_schema\<lparr>extensions_runner := [''{ second }'']\<rparr>)"
    by (simp add: Schema_execute_sync_def request_engine_def logging_engine_def demo_schema_def)
  from extensions_isolated_when_request_scoped
         [OF request_engine_scoped request_engine_reachable,
          of "''{ second }''" None None None None] a b
       request_engine_scoped request_engine_reachable
  show ?thesis by simp
qed

text \<open>
  C10: when the parser rejects the query text, \<^verbatim>\<open>subscribe\<close> raises the parser's
  exception, whatever the engine's \<^verbatim>\<open>subscribe\<close> would do; \<^verbatim>\<open>execute\<close> and
  \<^verbatim>\<open>execute_sync\<close> do not depend on the parser: they hand the text to the engine.
\<close>

theorem subscribe_raises_parse_error:
  assumes "parse E q = Inl e"
  shows "Schema_subscribe E self q variable_values context_value root_value operation_name =
           Some (Inl e) \<and>
         Schema_subscribe (E\<lparr>subscribe := sb\<rparr>) self q variable_values context_value
             root_value operation_name = Some (Inl e) \<and>
         Schema_execute_sync (E\<lparr>parse := p\<rparr>) self q variable_values context_value
             root_value operation_name =
           Schema_execute_sync E self q variable_values context_value root_value
             operation_name \<and>
         Schema_execute (E\<lparr>parse := p\<rparr>) self q variable_values context_value
             root_value operation_name =
           Schema_execute E self q variable_values context_value root_value operation_name"
  using assms
  by (simp add: Schema_subscribe_def Schema_execute_sync_def Schema_execute_def
        split: sum.splits prod.splits engine_value.splits option.splits)

theorem subscribe_raises_parse_error_witness:
  "parse logging_engine [] = Inl (Exception ''GraphQLSyntaxError'') \<and>
   Schema_subscribe logging_engine demo_schema [] None None None None =
     Some (Inl (Exception ''GraphQLSyntaxError'')) \<and>
   fst (Schema_execute_sync logging_engine demo_schema [] None None None None) =
     Inr \<lparr>data = Some [[]], errors = None, extensions = [''queries'' \<mapsto> [[]]]\<rparr>"
proof -
  have p: "parse logging_engine [] = Inl (Exception ''GraphQLSyntaxError'')"
    by (simp add: logging_engine_def)
  have "fst (Schema_execute_sync logging_engine demo_schema [] None None None None) =
     Inr \<lparr>data = Some [[]], errors = None, extensions = [''queries'' \<mapsto> [[]]]\<rparr>"
    by (simp add: Schema_execute_sync_def logging_engine_def demo_schema_def)
  with p subscribe_raises_parse_error [OF p, of demo_schema None None None None]
  show ?thesis by simp
qed

end
